theory Spec2Isabelle
  imports Main "HOL-Library.Word" "HOL-Library.AList"
begin

section \<open>Strings of the host language\<close>

text \<open>
  A TypeScript string is a sequence of 16-bit code units. String literals of the source
  are written through \<open>js\<close>, which maps every character of an ASCII literal to its
  code unit.
\<close>

type_synonym code_unit = "16 word"
type_synonym jsstring = "code_unit list"

definition js :: "string \<Rightarrow> jsstring" where
  "js s = map (\<lambda>c. word_of_nat (of_char c)) s"

text \<open>
  \<open>String.prototype.trim\<close> strips, at both ends, the code units that ECMAScript
  calls WhiteSpace (TAB, VT, FF, ZWNBSP and the Unicode space separators) or
  LineTerminator (LF, CR, LS, PS). All of them are single code units.
\<close>

definition isWhiteSpace :: "code_unit \<Rightarrow> bool" where
  "isWhiteSpace c \<longleftrightarrow>
     c = 0x0009 \<or> c = 0x000B \<or> c = 0x000C \<or> c = 0xFEFF \<or>
     c = 0x0020 \<or> c = 0x00A0 \<or> c = 0x1680 \<or> (0x2000 \<le> c \<and> c \<le> 0x200A) \<or>
     c = 0x202F \<or> c = 0x205F \<or> c = 0x3000 \<or>
     c = 0x000A \<or> c = 0x000D \<or> c = 0x2028 \<or> c = 0x2029"

definition trim :: "jsstring \<Rightarrow> jsstring" where
  "trim s = rev (dropWhile isWhiteSpace (rev (dropWhile isWhiteSpace s)))"

text \<open>\<open>v || d\<close> on an optional string: an unset and an empty value are both falsy.\<close>

definition or_string :: "jsstring option \<Rightarrow> jsstring \<Rightarrow> jsstring" where
  "or_string v d = (case v of None \<Rightarrow> d | Some s \<Rightarrow> if s = [] then d else s)"

section \<open>Type definitions of the application\<close>

datatype priority = High | Medium | Low

record Todo =
  todo_id :: jsstring
  task :: jsstring
  priority :: priority
  completed :: bool
  createdAt :: "jsstring option"
  updatedAt :: "jsstring option"

record CreateTodoRequest =
  c_task :: jsstring
  c_priority :: priority
  c_completed :: "bool option"

record UpdateTodoRequest =
  u_task :: "jsstring option"
  u_priority :: "priority option"
  u_completed :: "bool option"

text \<open>
  The numeric fields of the habits are only ever stored and sent on; the handlers do no
  arithmetic on them, so they are kept as integers.
\<close>

record Habits =
  workStartTime :: jsstring
  workEndTime :: jsstring
  breakDuration :: int
  breakFrequency :: int
  focusArea :: jsstring

record ScheduleItem =
  s_time :: jsstring
  s_task :: jsstring
  s_duration :: jsstring
  s_breakDuration :: "(jsstring + int) option"

record ApiRequest =
  scopes :: "jsstring list"

record UserAccount =
  name :: "jsstring option"
  username :: "jsstring option"

section \<open>Environment and authentication configuration\<close>

record env =
  REACT_APP_API_URL :: "jsstring option"
  REACT_APP_API_SCOPE :: "jsstring option"

definition API_BASE_URL :: "env \<Rightarrow> jsstring" where
  "API_BASE_URL e = or_string (REACT_APP_API_URL e) (js ''https://todoapi.azurewebsites.net'')"

definition apiRequest :: "env \<Rightarrow> ApiRequest" where
  "apiRequest e =
     \<lparr>scopes = [or_string (REACT_APP_API_SCOPE e) (js ''api://<YOUR_API_CLIENT_ID>/.default'')]\<rparr>"

section \<open>The identity client\<close>

text \<open>
  A thrown value is an \<open>Error\<close> carrying its message, or an error of the HTTP client
  carrying the response status when there was a response.
\<close>

datatype js_error = Error jsstring | AxiosError "nat option" jsstring

record SilentRequest =
  sr_scopes :: "jsstring list"
  sr_account :: UserAccount

record AuthenticationResult =
  accessToken :: jsstring

text \<open>
  The identity library is an external collaborator: of a \<open>PublicClientApplication\<close>
  the API layer uses the list of cached accounts and silent token acquisition, which
  resolves with an authentication result or rejects.
\<close>

record PublicClientApplication =
  getAllAccounts :: "UserAccount list"
  acquireTokenSilent :: "SilentRequest \<Rightarrow> js_error + AuthenticationResult"

section \<open>The API service layer\<close>

datatype http_method = GET | POST | PUT | DELETE

datatype body =
    NoBody
  | CreateBody jsstring priority bool
  | UpdateBody UpdateTodoRequest
  | ScheduleBody "Todo list" Habits

record request_config =
  http_method :: http_method
  url :: jsstring
  baseURL :: jsstring
  headers :: "(jsstring \<times> jsstring) list"
  body :: body

record 'a response =
  status :: nat
  data :: 'a

text \<open>
  The network and the backend behind it: a request either resolves with a response whose
  data has the type the call site asks for, or rejects with an error.
\<close>

type_synonym 'a transport = "request_config \<Rightarrow> js_error + 'a response"

text \<open>
  The state of the module: the environment it was loaded in, the module variable
  \<open>msalInstance\<close>, and how many times \<open>initializeApi\<close> has registered its pair of
  interceptors on \<open>apiClient\<close>.
\<close>

record api_state =
  module_env :: env
  msalInstance :: "PublicClientApplication option"
  interceptors :: nat

definition api_module :: "env \<Rightarrow> api_state" where
  "api_module e = \<lparr>module_env = e, msalInstance = None, interceptors = 0\<rparr>"

definition initializeApi :: "PublicClientApplication \<Rightarrow> api_state \<Rightarrow> api_state" where
  "initializeApi msalInstanceParam api =
     api\<lparr>msalInstance := Some msalInstanceParam, interceptors := Suc (interceptors api)\<rparr>"

text \<open>The body of the request interceptor's \<open>try\<close> block up to the token.\<close>

definition interceptor_try :: "api_state \<Rightarrow> js_error + AuthenticationResult" where
  "interceptor_try api =
     (case msalInstance api of
        None \<Rightarrow> Inl (Error (js ''MSAL instance not initialized''))
      | Some m \<Rightarrow>
          (let accounts = getAllAccounts m in
           if length accounts = 0 then Inl (Error (js ''No user account found''))
           else acquireTokenSilent m
                  \<lparr>sr_scopes = scopes (apiRequest (module_env api)), sr_account = accounts ! 0\<rparr>))"

definition request_interceptor :: "api_state \<Rightarrow> request_config \<Rightarrow> request_config" where
  "request_interceptor api config =
     (case interceptor_try api of
        Inr response \<Rightarrow>
          config\<lparr>headers :=
            AList.update (js ''Authorization'') (js ''Bearer '' @ accessToken response)
              (headers config)\<rparr>
      | Inl error \<Rightarrow> config)"

text \<open>The response interceptor logs a rejection and rejects with the same error.\<close>

definition response_interceptor :: "js_error + 'a response \<Rightarrow> js_error + 'a response" where
  "response_interceptor r = (case r of Inr response \<Rightarrow> Inr response | Inl error \<Rightarrow> Inl error)"

text \<open>
  One call through \<open>apiClient\<close>: the registered request interceptors run, the request
  goes out, the registered response interceptors run. The second component is the list
  of requests that went out.
\<close>

definition apiClient_request ::
  "api_state \<Rightarrow> 'a transport \<Rightarrow> http_method \<Rightarrow> jsstring \<Rightarrow> body \<Rightarrow>
   (js_error + 'a response) \<times> request_config list" where
  "apiClient_request api tr m u b =
     (let config0 = \<lparr>http_method = m, url = u, baseURL = API_BASE_URL (module_env api),
                      headers = [(js ''Content-Type'', js ''application/json'')], body = b\<rparr>;
          config = (request_interceptor api ^^ interceptors api) config0
      in ((response_interceptor ^^ interceptors api) (tr config), [config]))"

definition getTodos ::
  "api_state \<Rightarrow> (Todo list option) transport \<Rightarrow> (js_error + Todo list) \<times> request_config list" where
  "getTodos api tr =
     (case apiClient_request api tr GET (js ''/todos'') NoBody of
        (Inr response, log) \<Rightarrow> (Inr (case data response of Some d \<Rightarrow> d | None \<Rightarrow> []), log)
      | (Inl error, log) \<Rightarrow> (Inl error, log))"

definition createTodo ::
  "api_state \<Rightarrow> Todo transport \<Rightarrow> CreateTodoRequest \<Rightarrow> (js_error + Todo) \<times> request_config list" where
  "createTodo api tr todoData =
     (case apiClient_request api tr POST (js ''/todos'')
             (CreateBody (c_task todoData) (c_priority todoData)
                (case c_completed todoData of Some c \<Rightarrow> c \<or> False | None \<Rightarrow> False)) of
        (Inr response, log) \<Rightarrow> (Inr (data response), log)
      | (Inl error, log) \<Rightarrow> (Inl error, log))"

definition updateTodo ::
  "api_state \<Rightarrow> Todo transport \<Rightarrow> jsstring \<Rightarrow> UpdateTodoRequest \<Rightarrow>
   (js_error + Todo) \<times> request_config list" where
  "updateTodo api tr i updateData =
     (case apiClient_request api tr PUT (js ''/todos/'' @ i) (UpdateBody updateData) of
        (Inr response, log) \<Rightarrow> (Inr (data response), log)
      | (Inl error, log) \<Rightarrow> (Inl error, log))"

definition deleteTodo ::
  "api_state \<Rightarrow> unit transport \<Rightarrow> jsstring \<Rightarrow> (js_error + unit) \<times> request_config list" where
  "deleteTodo api tr i =
     (case apiClient_request api tr DELETE (js ''/todos/'' @ i) NoBody of
        (Inr response, log) \<Rightarrow> (Inr (), log)
      | (Inl error, log) \<Rightarrow> (Inl error, log))"

definition generateSchedule ::
  "api_state \<Rightarrow> (ScheduleItem list option) transport \<Rightarrow> Todo list \<Rightarrow> Habits \<Rightarrow>
   (js_error + ScheduleItem list) \<times> request_config list" where
  "generateSchedule api tr ts h =
     (case apiClient_request api tr POST (js ''/schedule'') (ScheduleBody ts h) of
        (Inr response, log) \<Rightarrow> (Inr (case data response of Some d \<Rightarrow> d | None \<Rightarrow> []), log)
      | (Inl error, log) \<Rightarrow> (Inl error, log))"

section \<open>The application state controller\<close>

record app_state =
  todos :: "Todo list"
  schedule :: "ScheduleItem list"
  loading :: bool
  error :: "jsstring option"
  showSchedule :: bool
  taskInput :: jsstring
  priorityInput :: priority
  habits :: Habits

definition initial_state :: app_state where
  "initial_state =
     \<lparr>todos = [], schedule = [], loading = False, error = None, showSchedule = False,
      taskInput = [], priorityInput = Medium,
      habits = \<lparr>workStartTime = js ''09:00'', workEndTime = js ''17:00'', breakDuration = 15,
                breakFrequency = 60, focusArea = []\<rparr>\<rparr>"

text \<open>
  A handler is run on the state its closure was created in and, with no other handler
  settling in between, yields the state after its last setter together with the requests
  it sent. Every handler reads \<open>todos\<close>, \<open>taskInput\<close>, \<open>priorityInput\<close> and
  \<open>habits\<close> from that closure, not from the state its setters have produced so far.
\<close>

definition fetchTodos ::
  "api_state \<Rightarrow> (Todo list option) transport \<Rightarrow> app_state \<Rightarrow> app_state \<times> request_config list" where
  "fetchTodos api tr st =
     (let s1 = st\<lparr>loading := True\<rparr>;
          s2 = s1\<lparr>error := None\<rparr>
      in case getTodos api tr of
           (Inr d, log) \<Rightarrow> ((s2\<lparr>todos := d\<rparr>)\<lparr>loading := False\<rparr>, log)
         | (Inl err, log) \<Rightarrow>
             ((s2\<lparr>error := Some (js ''Failed to load tasks. Please try again.'')\<rparr>)
                \<lparr>loading := False\<rparr>, log))"

definition handleAddTask ::
  "api_state \<Rightarrow> Todo transport \<Rightarrow> app_state \<Rightarrow> app_state \<times> request_config list" where
  "handleAddTask api tr st =
     (if trim (taskInput st) = [] then (st, [])
      else
        let s1 = st\<lparr>loading := True\<rparr>;
            s2 = s1\<lparr>error := None\<rparr>
        in case createTodo api tr
                  \<lparr>c_task = taskInput st, c_priority = priorityInput st, c_completed = Some False\<rparr> of
             (Inr newTodo, log) \<Rightarrow>
               ((((s2\<lparr>todos := todos st @ [newTodo]\<rparr>)\<lparr>taskInput := []\<rparr>)
                    \<lparr>priorityInput := Medium\<rparr>)\<lparr>loading := False\<rparr>, log)
           | (Inl err, log) \<Rightarrow>
               ((s2\<lparr>error := Some (js ''Failed to add task. Please try again.'')\<rparr>)
                  \<lparr>loading := False\<rparr>, log))"

definition handleToggleTodo ::
  "api_state \<Rightarrow> Todo transport \<Rightarrow> jsstring \<Rightarrow> bool \<Rightarrow> app_state \<Rightarrow>
   app_state \<times> request_config list" where
  "handleToggleTodo api tr i currentStatus st =
     (let s1 = st\<lparr>loading := True\<rparr>;
          s2 = s1\<lparr>error := None\<rparr>
      in case updateTodo api tr i
                \<lparr>u_task = None, u_priority = None, u_completed = Some (\<not> currentStatus)\<rparr> of
           (Inr updatedTodo, log) \<Rightarrow>
             ((s2\<lparr>todos := map (\<lambda>todo. if todo_id todo = i then updatedTodo else todo) (todos st)\<rparr>)
                \<lparr>loading := False\<rparr>, log)
         | (Inl err, log) \<Rightarrow>
             ((s2\<lparr>error := Some (js ''Failed to update task. Please try again.'')\<rparr>)
                \<lparr>loading := False\<rparr>, log))"

definition handleDeleteTodo ::
  "api_state \<Rightarrow> unit transport \<Rightarrow> jsstring \<Rightarrow> app_state \<Rightarrow> app_state \<times> request_config list" where
  "handleDeleteTodo api tr i st =
     (let s1 = st\<lparr>loading := True\<rparr>;
          s2 = s1\<lparr>error := None\<rparr>
      in case deleteTodo api tr i of
           (Inr u, log) \<Rightarrow>
             ((s2\<lparr>todos := filter (\<lambda>todo. todo_id todo \<noteq> i) (todos st)\<rparr>)
                \<lparr>loading := False\<rparr>, log)
         | (Inl err, log) \<Rightarrow>
             ((s2\<lparr>error := Some (js ''Failed to delete task. Please try again.'')\<rparr>)
                \<lparr>loading := False\<rparr>, log))"

definition handleGenerateSchedule ::
  "api_state \<Rightarrow> (ScheduleItem list option) transport \<Rightarrow> app_state \<Rightarrow>
   app_state \<times> request_config list" where
  "handleGenerateSchedule api tr st =
     (if length (todos st) = 0
      then (st\<lparr>error := Some (js ''Please add some tasks before generating a schedule.'')\<rparr>, [])
      else
        let s1 = st\<lparr>loading := True\<rparr>;
            s2 = s1\<lparr>error := None\<rparr>
        in case generateSchedule api tr (todos st) (habits st) of
             (Inr generatedSchedule, log) \<Rightarrow>
               (((s2\<lparr>schedule := generatedSchedule\<rparr>)\<lparr>showSchedule := True\<rparr>)
                  \<lparr>loading := False\<rparr>, log)
           | (Inl err, log) \<Rightarrow>
               ((s2\<lparr>error := Some (js ''Failed to generate schedule. Please try again.'')\<rparr>)
                  \<lparr>loading := False\<rparr>, log))"

text \<open>The toggle button of a task row calls the handler with the row's id and status.\<close>

definition toggle_onClick ::
  "api_state \<Rightarrow> Todo transport \<Rightarrow> Todo \<Rightarrow> app_state \<Rightarrow> app_state \<times> request_config list" where
  "toggle_onClick api tr todo st = handleToggleTodo api tr (todo_id todo) (completed todo) st"

section \<open>Reading the model\<close>

text \<open>The request that leaves the client for a call with the given method, path and body.\<close>

definition outgoing :: "api_state \<Rightarrow> http_method \<Rightarrow> jsstring \<Rightarrow> body \<Rightarrow> request_config" where
  "outgoing api m u b =
     (request_interceptor api ^^ interceptors api)
       \<lparr>http_method = m, url = u, baseURL = API_BASE_URL (module_env api),
        headers = [(js ''Content-Type'', js ''application/json'')], body = b\<rparr>"

text \<open>The value of a request's \<open>Authorization\<close> header, if it has one.\<close>

definition authorization :: "request_config \<Rightarrow> jsstring option" where
  "authorization c = map_of (headers c) (js ''Authorization'')"

text \<open>
  The header the specification asks for: \<open>Bearer\<close> and the token when there is an identity
  client, it has a signed-in account and silent acquisition for the first account
  succeeds; no header in each of the three other cases.
\<close>

definition spec_authorization :: "api_state \<Rightarrow> jsstring option" where
  "spec_authorization api =
     (case msalInstance api of
        None \<Rightarrow> None
      | Some m \<Rightarrow>
          (case getAllAccounts m of
             [] \<Rightarrow> None
           | account # _ \<Rightarrow>
               (case acquireTokenSilent m
                       \<lparr>sr_scopes = scopes (apiRequest (module_env api)), sr_account = account\<rparr> of
                  Inl e \<Rightarrow> None
                | Inr r \<Rightarrow> Some (js ''Bearer '' @ accessToken r))))"

text \<open>
  A backend that applies the partial it is sent: a \<open>PUT\<close> on the stored task's path
  answers with the stored task in which every field present in the partial is replaced.
\<close>

definition applyPartial :: "UpdateTodoRequest \<Rightarrow> Todo \<Rightarrow> Todo" where
  "applyPartial u t =
     t\<lparr>task := (case u_task u of Some x \<Rightarrow> x | None \<Rightarrow> task t),
       priority := (case u_priority u of Some p \<Rightarrow> p | None \<Rightarrow> priority t),
       completed := (case u_completed u of Some c \<Rightarrow> c | None \<Rightarrow> completed t)\<rparr>"

definition backend_put :: "Todo \<Rightarrow> Todo transport" where
  "backend_put stored config =
     (case body config of
        UpdateBody u \<Rightarrow>
          if http_method config = PUT \<and> url config = js ''/todos/'' @ todo_id stored
          then Inr \<lparr>status = 200, data = applyPartial u stored\<rparr>
          else Inl (AxiosError (Some 404) (js ''Request failed with status code 404''))
      | _ \<Rightarrow> Inl (AxiosError (Some 400) (js ''Request failed with status code 400'')))"

subsection \<open>Concrete scenarios\<close>

definition t1 :: Todo where
  "t1 = \<lparr>todo_id = js ''t1'', task = js ''Write report'', priority = High, completed = False,
         createdAt = None, updatedAt = None\<rparr>"

definition t2 :: Todo where
  "t2 = \<lparr>todo_id = js ''t2'', task = js ''Review budget'', priority = Low, completed = True,
         createdAt = None, updatedAt = None\<rparr>"

definition t3 :: Todo where
  "t3 = \<lparr>todo_id = js ''t3'', task = js ''Call supplier'', priority = Medium, completed = False,
         createdAt = None, updatedAt = None\<rparr>"

definition slot :: ScheduleItem where
  "slot = \<lparr>s_time = js ''09:00'', s_task = js ''Write report'', s_duration = js ''45m'',
           s_breakDuration = None\<rparr>"

definition signed_in :: PublicClientApplication where
  "signed_in =
     \<lparr>getAllAccounts = [\<lparr>name = Some (js ''Ada''), username = Some (js ''ada@example.org'')\<rparr>],
      acquireTokenSilent = (\<lambda>r. Inr \<lparr>accessToken = js ''tok''\<rparr>)\<rparr>"

definition signed_out :: PublicClientApplication where
  "signed_out =
     \<lparr>getAllAccounts = [],
      acquireTokenSilent = (\<lambda>r. Inl (Error (js ''no_account_error'')))\<rparr>"

definition default_env :: env where
  "default_env = \<lparr>REACT_APP_API_URL = None, REACT_APP_API_SCOPE = None\<rparr>"

definition api_signed_in :: api_state where
  "api_signed_in = initializeApi signed_in (api_module default_env)"

definition api_signed_out :: api_state where
  "api_signed_out = initializeApi signed_out (api_module default_env)"

definition network_error :: js_error where
  "network_error = AxiosError None (js ''Network Error'')"

definition offline :: "'a transport" where
  "offline config = Inl network_error"

definition answering :: "'a \<Rightarrow> 'a transport" where
  "answering d config = Inr \<lparr>status = 200, data = d\<rparr>"

definition dashboard :: app_state where
  "dashboard = initial_state\<lparr>todos := [t1, t2], taskInput := js ''Call supplier''\<rparr>"

section \<open>Facts about the API service layer\<close>

lemma response_interceptor_funpow: "(response_interceptor ^^ n) r = r"
  by (induction n) (auto simp: response_interceptor_def split: sum.splits)

lemma request_interceptor_idem:
  "request_interceptor api (request_interceptor api c) = request_interceptor api c"
  by (simp add: request_interceptor_def split: sum.splits)

lemma request_interceptor_funpow:
  "0 < n \<Longrightarrow> (request_interceptor api ^^ n) c = request_interceptor api c"
proof (induction n)
  case 0
  then show ?case by simp
next
  case (Suc n)
  then show ?case by (cases n) (simp_all add: request_interceptor_idem)
qed

lemma request_interceptor_frame:
  "http_method (request_interceptor api c) = http_method c"
  "url (request_interceptor api c) = url c"
  "body (request_interceptor api c) = body c"
  by (simp_all add: request_interceptor_def split: sum.splits)

lemma request_interceptor_funpow_frame:
  "http_method ((request_interceptor api ^^ n) c) = http_method c \<and>
   url ((request_interceptor api ^^ n) c) = url c \<and>
   body ((request_interceptor api ^^ n) c) = body c"
  by (induction n) (simp_all add: request_interceptor_frame)

lemma outgoing_frame:
  "http_method (outgoing api m u b) = m"
  "url (outgoing api m u b) = u"
  "body (outgoing api m u b) = b"
  by (simp_all add: outgoing_def request_interceptor_funpow_frame)

lemma apiClient_request_outgoing:
  "apiClient_request api tr m u b = (tr (outgoing api m u b), [outgoing api m u b])"
  by (simp add: apiClient_request_def outgoing_def Let_def response_interceptor_funpow)

lemma getTodos_outgoing:
  "getTodos api tr =
     (case tr (outgoing api GET (js ''/todos'') NoBody) of
        Inl e \<Rightarrow> Inl e
      | Inr r \<Rightarrow> Inr (case data r of Some d \<Rightarrow> d | None \<Rightarrow> []),
      [outgoing api GET (js ''/todos'') NoBody])"
  by (simp add: getTodos_def apiClient_request_outgoing split: sum.splits)

lemma createTodo_outgoing:
  "createTodo api tr d =
     (case tr (outgoing api POST (js ''/todos'')
                 (CreateBody (c_task d) (c_priority d)
                    (case c_completed d of Some c \<Rightarrow> c | None \<Rightarrow> False))) of
        Inl e \<Rightarrow> Inl e
      | Inr r \<Rightarrow> Inr (data r),
      [outgoing api POST (js ''/todos'')
         (CreateBody (c_task d) (c_priority d)
            (case c_completed d of Some c \<Rightarrow> c | None \<Rightarrow> False))])"
  by (cases "c_completed d")
     (simp_all add: createTodo_def apiClient_request_outgoing split: sum.splits)

lemma updateTodo_outgoing:
  "updateTodo api tr i u =
     (case tr (outgoing api PUT (js ''/todos/'' @ i) (UpdateBody u)) of
        Inl e \<Rightarrow> Inl e
      | Inr r \<Rightarrow> Inr (data r),
      [outgoing api PUT (js ''/todos/'' @ i) (UpdateBody u)])"
  by (simp add: updateTodo_def apiClient_request_outgoing split: sum.splits)

lemma deleteTodo_outgoing:
  "deleteTodo api tr i =
     (case tr (outgoing api DELETE (js ''/todos/'' @ i) NoBody) of
        Inl e \<Rightarrow> Inl e
      | Inr r \<Rightarrow> Inr (),
      [outgoing api DELETE (js ''/todos/'' @ i) NoBody])"
  by (simp add: deleteTodo_def apiClient_request_outgoing split: sum.splits)

lemma generateSchedule_outgoing:
  "generateSchedule api tr ts h =
     (case tr (outgoing api POST (js ''/schedule'') (ScheduleBody ts h)) of
        Inl e \<Rightarrow> Inl e
      | Inr r \<Rightarrow> Inr (case data r of Some d \<Rightarrow> d | None \<Rightarrow> []),
      [outgoing api POST (js ''/schedule'') (ScheduleBody ts h)])"
  by (simp add: generateSchedule_def apiClient_request_outgoing split: sum.splits)

lemmas api_outgoing =
  getTodos_outgoing createTodo_outgoing updateTodo_outgoing deleteTodo_outgoing
  generateSchedule_outgoing

lemma authorization_initial:
  "authorization \<lparr>http_method = m, url = u, baseURL = bu,
     headers = [(js ''Content-Type'', js ''application/json'')], body = b\<rparr> = None"
  by (simp add: authorization_def js_def)

lemma authorization_request_interceptor:
  "authorization c = None \<Longrightarrow> authorization (request_interceptor api c) = spec_authorization api"
  by (cases "msalInstance api")
     (auto simp: authorization_def request_interceptor_def interceptor_try_def
        spec_authorization_def update_conv' Let_def split: sum.splits list.splits)

lemma authorization_outgoing:
  "0 < interceptors api \<Longrightarrow> authorization (outgoing api m u b) = spec_authorization api"
  by (simp add: outgoing_def request_interceptor_funpow authorization_request_interceptor
        authorization_initial)

lemma trim_eq_Nil: "trim s = [] \<longleftrightarrow> (\<forall>c\<in>set s. isWhiteSpace c)"
proof
  assume "trim s = []"
  then have a: "\<forall>c\<in>set (dropWhile isWhiteSpace s). isWhiteSpace c"
    by (simp add: trim_def)
  have "dropWhile isWhiteSpace s = []"
  proof (rule ccontr)
    assume n: "dropWhile isWhiteSpace s \<noteq> []"
    then have "\<not> isWhiteSpace (hd (dropWhile isWhiteSpace s))" by (rule hd_dropWhile)
    moreover have "hd (dropWhile isWhiteSpace s) \<in> set (dropWhile isWhiteSpace s)"
      using n by simp
    ultimately show False using a by blast
  qed
  then show "\<forall>c\<in>set s. isWhiteSpace c" by simp
next
  assume "\<forall>c\<in>set s. isWhiteSpace c"
  then have d: "dropWhile isWhiteSpace s = []" by simp
  show "trim s = []" unfolding trim_def d by simp
qed

section \<open>Facts about the reconciliation of the task list\<close>

lemma map_replace_unique:
  assumes "distinct (map todo_id ts)" and "i \<in> todo_id ` set ts"
  shows "\<exists>xs t ys. ts = xs @ t # ys \<and> todo_id t = i \<and>
           map (\<lambda>todo. if todo_id todo = i then u else todo) ts = xs @ u # ys \<and>
           filter (\<lambda>todo. todo_id todo \<noteq> i) ts = xs @ ys"
proof -
  from assms(2) obtain t where t: "t \<in> set ts" "todo_id t = i" by auto
  then obtain xs ys where s: "ts = xs @ t # ys" by (auto dest: split_list)
  with assms(1) t(2) have nx: "\<forall>x\<in>set xs. todo_id x \<noteq> i" and ny: "\<forall>y\<in>set ys. todo_id y \<noteq> i"
    by (auto simp: image_iff)
  from nx have mx: "map (\<lambda>todo. if todo_id todo = i then u else todo) xs = xs"
    by (simp add: map_idI)
  from ny have my: "map (\<lambda>todo. if todo_id todo = i then u else todo) ys = ys"
    by (simp add: map_idI)
  from nx have fx: "filter (\<lambda>todo. todo_id todo \<noteq> i) xs = xs" by simp
  from ny have fy: "filter (\<lambda>todo. todo_id todo \<noteq> i) ys = ys" by simp
  show ?thesis using s t(2) mx my fx fy by auto
qed

lemma map_replace_absent:
  "i \<notin> todo_id ` set ts \<Longrightarrow> map (\<lambda>todo. if todo_id todo = i then u else todo) ts = ts"
  by (rule map_idI) auto

lemma filter_absent:
  "i \<notin> todo_id ` set ts \<Longrightarrow> filter (\<lambda>todo. todo_id todo \<noteq> i) ts = ts"
  by (induction ts) auto

section \<open>The claims\<close>

text \<open>
  C1. Once \<open>initializeApi\<close> has registered the interceptor, each of the five API
  operations sends exactly one request, and its \<open>Authorization\<close> header is
  \<open>Bearer\<close> followed by the token when the token is acquired. When there is no
  identity client, no signed-in account, or silent acquisition rejects, the request is
  sent all the same, without an \<open>Authorization\<close> header.
\<close>

theorem token_attached_or_request_proceeds:
  assumes "0 < interceptors api"
  shows "map authorization (snd (getTodos api tr1)) = [spec_authorization api]
       \<and> map authorization (snd (createTodo api tr2 todoData)) = [spec_authorization api]
       \<and> map authorization (snd (updateTodo api tr3 i updateData)) = [spec_authorization api]
       \<and> map authorization (snd (deleteTodo api tr4 i)) = [spec_authorization api]
       \<and> map authorization (snd (generateSchedule api tr5 ts h)) = [spec_authorization api]"
  using assms by (simp add: api_outgoing authorization_outgoing)

theorem token_attached_or_request_proceeds_witness:
  "0 < interceptors api_signed_in
   \<and> map authorization (snd (getTodos api_signed_in offline)) = [Some (js ''Bearer tok'')]
   \<and> map authorization (snd (createTodo api_signed_in offline
        \<lparr>c_task = js ''Write report'', c_priority = High, c_completed = None\<rparr>))
       = [Some (js ''Bearer tok'')]
   \<and> map authorization (snd (updateTodo api_signed_in offline (js ''t1'')
        \<lparr>u_task = None, u_priority = None, u_completed = Some True\<rparr>))
       = [Some (js ''Bearer tok'')]
   \<and> map authorization (snd (deleteTodo api_signed_in offline (js ''t1'')))
       = [Some (js ''Bearer tok'')]
   \<and> map authorization (snd (generateSchedule api_signed_in offline [t1] (habits initial_state)))
       = [Some (js ''Bearer tok'')]
   \<and> 0 < interceptors api_signed_out
   \<and> map authorization (snd (getTodos api_signed_out offline)) = [None]
   \<and> map authorization (snd (deleteTodo api_signed_out offline (js ''t1''))) = [None]"
proof -
  have a: "0 < interceptors api_signed_in"
    by (simp add: api_signed_in_def initializeApi_def)
  have b: "0 < interceptors api_signed_out"
    by (simp add: api_signed_out_def initializeApi_def)
  have sa: "spec_authorization api_signed_in = Some (js ''Bearer tok'')"
    by (simp add: spec_authorization_def api_signed_in_def initializeApi_def signed_in_def js_def)
  have sb: "spec_authorization api_signed_out = None"
    by (simp add: spec_authorization_def api_signed_out_def initializeApi_def signed_out_def)
  show ?thesis
    using a b
      token_attached_or_request_proceeds [OF a, of offline offline
        "\<lparr>c_task = js ''Write report'', c_priority = High, c_completed = None\<rparr>"
        offline "js ''t1''" "\<lparr>u_task = None, u_priority = None, u_completed = Some True\<rparr>"
        offline offline "[t1]" "habits initial_state"]
      token_attached_or_request_proceeds [OF b, of offline offline _ offline "js ''t1''" _
        offline offline]
    by (simp add: sa sb)
qed

text \<open>
  C2. With an empty task list, generating a schedule sends no request, sets the
  validation message, and changes nothing else: the loading flag, the task list, the
  schedule and its visibility stay as they were.
\<close>

theorem generate_with_no_tasks_refused:
  assumes "todos st = []"
  shows "handleGenerateSchedule api tr st =
           (st\<lparr>error := Some (js ''Please add some tasks before generating a schedule.'')\<rparr>, [])"
  using assms by (simp add: handleGenerateSchedule_def)

theorem generate_with_no_tasks_refused_witness:
  "todos initial_state = []
   \<and> handleGenerateSchedule api_signed_in (answering (Some [])) initial_state =
       (initial_state\<lparr>error := Some (js ''Please add some tasks before generating a schedule.'')\<rparr>,
        [])"
proof -
  have e: "todos initial_state = []" by (simp add: initial_state_def)
  show ?thesis
    using e generate_with_no_tasks_refused [OF e, of api_signed_in "answering (Some [])"]
    by simp
qed

text \<open>
  C3. Whenever the request of an operation is rejected, the handler ends with the loading
  flag false and the error message of that operation, and every other part of the state,
  the task list and the schedule among them, is what it was when the handler started.
\<close>

theorem failure_sets_generic_message:
  "(snd (fetchTodos api tr1 st) = [c1] \<and> tr1 c1 = Inl e1 \<longrightarrow>
      fst (fetchTodos api tr1 st) =
        st\<lparr>loading := False, error := Some (js ''Failed to load tasks. Please try again.'')\<rparr>)
 \<and> (snd (handleAddTask api tr2 st) = [c2] \<and> tr2 c2 = Inl e2 \<longrightarrow>
      fst (handleAddTask api tr2 st) =
        st\<lparr>loading := False, error := Some (js ''Failed to add task. Please try again.'')\<rparr>)
 \<and> (snd (handleToggleTodo api tr3 i currentStatus st) = [c3] \<and> tr3 c3 = Inl e3 \<longrightarrow>
      fst (handleToggleTodo api tr3 i currentStatus st) =
        st\<lparr>loading := False, error := Some (js ''Failed to update task. Please try again.'')\<rparr>)
 \<and> (snd (handleDeleteTodo api tr4 j st) = [c4] \<and> tr4 c4 = Inl e4 \<longrightarrow>
      fst (handleDeleteTodo api tr4 j st) =
        st\<lparr>loading := False, error := Some (js ''Failed to delete task. Please try again.'')\<rparr>)
 \<and> (snd (handleGenerateSchedule api tr5 st) = [c5] \<and> tr5 c5 = Inl e5 \<longrightarrow>
      fst (handleGenerateSchedule api tr5 st) =
        st\<lparr>loading := False,
           error := Some (js ''Failed to generate schedule. Please try again.'')\<rparr>)"
proof -
  have 1: "snd (fetchTodos api tr1 st) = [c1] \<and> tr1 c1 = Inl e1 \<longrightarrow>
      fst (fetchTodos api tr1 st) =
        st\<lparr>loading := False, error := Some (js ''Failed to load tasks. Please try again.'')\<rparr>"
    by (auto simp: fetchTodos_def getTodos_outgoing split: sum.splits)
  have 2: "snd (handleAddTask api tr2 st) = [c2] \<and> tr2 c2 = Inl e2 \<longrightarrow>
      fst (handleAddTask api tr2 st) =
        st\<lparr>loading := False, error := Some (js ''Failed to add task. Please try again.'')\<rparr>"
    by (auto simp: handleAddTask_def createTodo_outgoing split: sum.splits)
  have 3: "snd (handleToggleTodo api tr3 i currentStatus st) = [c3] \<and> tr3 c3 = Inl e3 \<longrightarrow>
      fst (handleToggleTodo api tr3 i currentStatus st) =
        st\<lparr>loading := False, error := Some (js ''Failed to update task. Please try again.'')\<rparr>"
    by (auto simp: handleToggleTodo_def updateTodo_outgoing split: sum.splits)
  have 4: "snd (handleDeleteTodo api tr4 j st) = [c4] \<and> tr4 c4 = Inl e4 \<longrightarrow>
      fst (handleDeleteTodo api tr4 j st) =
        st\<lparr>loading := False, error := Some (js ''Failed to delete task. Please try again.'')\<rparr>"
    by (auto simp: handleDeleteTodo_def deleteTodo_outgoing split: sum.splits)
  have 5: "snd (handleGenerateSchedule api tr5 st) = [c5] \<and> tr5 c5 = Inl e5 \<longrightarrow>
      fst (handleGenerateSchedule api tr5 st) =
        st\<lparr>loading := False,
           error := Some (js ''Failed to generate schedule. Please try again.'')\<rparr>"
    by (auto simp: handleGenerateSchedule_def generateSchedule_outgoing split: sum.splits)
  from 1 2 3 4 5 show ?thesis by blast
qed

theorem failure_sets_generic_message_witness:
  "snd (fetchTodos api_signed_out offline dashboard) = [outgoing api_signed_out GET (js ''/todos'') NoBody]
   \<and> offline (outgoing api_signed_out GET (js ''/todos'') NoBody)
        = (Inl network_error :: js_error + Todo list option response)
   \<and> fst (fetchTodos api_signed_out offline dashboard) =
        dashboard\<lparr>loading := False, error := Some (js ''Failed to load tasks. Please try again.'')\<rparr>
   \<and> fst (handleAddTask api_signed_out offline dashboard) =
        dashboard\<lparr>loading := False, error := Some (js ''Failed to add task. Please try again.'')\<rparr>
   \<and> fst (handleToggleTodo api_signed_out offline (js ''t1'') False dashboard) =
        dashboard\<lparr>loading := False, error := Some (js ''Failed to update task. Please try again.'')\<rparr>
   \<and> fst (handleDeleteTodo api_signed_out offline (js ''t1'') dashboard) =
        dashboard\<lparr>loading := False, error := Some (js ''Failed to delete task. Please try again.'')\<rparr>
   \<and> fst (handleGenerateSchedule api_signed_out offline dashboard) =
        dashboard\<lparr>loading := False,
           error := Some (js ''Failed to generate schedule. Please try again.'')\<rparr>"
proof -
  have nb: "trim (taskInput dashboard) \<noteq> []"
    by (simp add: dashboard_def trim_eq_Nil js_def isWhiteSpace_def)
  have ne: "todos dashboard \<noteq> []"
    by (simp add: dashboard_def)
  have 1: "snd (fetchTodos api_signed_out offline dashboard)
             = [outgoing api_signed_out GET (js ''/todos'') NoBody]"
    by (simp add: fetchTodos_def getTodos_outgoing offline_def)
  have 2: "snd (handleAddTask api_signed_out offline dashboard)
             = [outgoing api_signed_out POST (js ''/todos'')
                  (CreateBody (taskInput dashboard) (priorityInput dashboard) False)]"
    using nb by (simp add: handleAddTask_def createTodo_outgoing offline_def)
  have 3: "snd (handleToggleTodo api_signed_out offline (js ''t1'') False dashboard)
             = [outgoing api_signed_out PUT (js ''/todos/'' @ js ''t1'')
                  (UpdateBody \<lparr>u_task = None, u_priority = None, u_completed = Some True\<rparr>)]"
    by (simp add: handleToggleTodo_def updateTodo_outgoing offline_def)
  have 4: "snd (handleDeleteTodo api_signed_out offline (js ''t1'') dashboard)
             = [outgoing api_signed_out DELETE (js ''/todos/'' @ js ''t1'') NoBody]"
    by (simp add: handleDeleteTodo_def deleteTodo_outgoing offline_def)
  have 5: "snd (handleGenerateSchedule api_signed_out offline dashboard)
             = [outgoing api_signed_out POST (js ''/schedule'')
                  (ScheduleBody (todos dashboard) (habits dashboard))]"
    using ne by (simp add: handleGenerateSchedule_def generateSchedule_outgoing offline_def)
  have off: "\<And>c. offline c = Inl network_error"
    by (simp add: offline_def)
  show ?thesis
    using 1 2 3 4 5
      failure_sets_generic_message [where api = api_signed_out and st = dashboard
        and ?tr1.0 = offline and ?tr2.0 = offline and ?tr3.0 = offline and ?tr4.0 = offline
        and ?tr5.0 = offline and i = "js ''t1''" and j = "js ''t1''" and currentStatus = False
        and ?e1.0 = network_error and ?e2.0 = network_error and ?e3.0 = network_error
        and ?e4.0 = network_error and ?e5.0 = network_error
        and ?c1.0 = "outgoing api_signed_out GET (js ''/todos'') NoBody"
        and ?c2.0 = "outgoing api_signed_out POST (js ''/todos'')
                  (CreateBody (taskInput dashboard) (priorityInput dashboard) False)"
        and ?c3.0 = "outgoing api_signed_out PUT (js ''/todos/'' @ js ''t1'')
                  (UpdateBody \<lparr>u_task = None, u_priority = None, u_completed = Some True\<rparr>)"
        and ?c4.0 = "outgoing api_signed_out DELETE (js ''/todos/'' @ js ''t1'') NoBody"
        and ?c5.0 = "outgoing api_signed_out POST (js ''/schedule'')
                  (ScheduleBody (todos dashboard) (habits dashboard))"]
    by (simp add: off)
qed

text \<open>
  C4. For a task input that is not blank, the handler sends one \<open>POST\<close> to
  \<open>/todos\<close> whose body carries the input, the selected priority and
  \<open>completed = false\<close>; \<open>createTodo\<close> sends \<open>completed = false\<close> whenever the
  field is unset. When the request resolves, the task list becomes the old list followed
  by the returned task: one entry longer, the last entry carrying the id the backend
  assigned, the earlier entries as before.
\<close>

theorem create_appends_returned_task:
  assumes "trim (taskInput st) \<noteq> []"
  shows "map (\<lambda>c. (http_method c, url c, body c)) (snd (handleAddTask api tr st)) =
           [(POST, js ''/todos'', CreateBody (taskInput st) (priorityInput st) False)]
       \<and> map body (snd (createTodo api tr' todoData)) =
           [CreateBody (c_task todoData) (c_priority todoData)
              (case c_completed todoData of None \<Rightarrow> False | Some b \<Rightarrow> b)]
       \<and> (snd (handleAddTask api tr st) = [c] \<and> tr c = Inr r \<longrightarrow>
            todos (fst (handleAddTask api tr st)) = todos st @ [data r]
          \<and> length (todos (fst (handleAddTask api tr st))) = Suc (length (todos st))
          \<and> todo_id (last (todos (fst (handleAddTask api tr st)))) = todo_id (data r)
          \<and> take (length (todos st)) (todos (fst (handleAddTask api tr st))) = todos st)"
proof -
  have 1: "map (\<lambda>c. (http_method c, url c, body c)) (snd (handleAddTask api tr st)) =
           [(POST, js ''/todos'', CreateBody (taskInput st) (priorityInput st) False)]"
    using assms
    by (simp add: handleAddTask_def createTodo_outgoing outgoing_frame split: sum.splits)
  have 2: "map body (snd (createTodo api tr' todoData)) =
           [CreateBody (c_task todoData) (c_priority todoData)
              (case c_completed todoData of None \<Rightarrow> False | Some b \<Rightarrow> b)]"
    by (cases "c_completed todoData") (simp_all add: createTodo_outgoing outgoing_frame)
  have 3: "snd (handleAddTask api tr st) = [c] \<and> tr c = Inr r \<longrightarrow>
            todos (fst (handleAddTask api tr st)) = todos st @ [data r]"
    using assms
    by (auto simp: handleAddTask_def createTodo_outgoing split: sum.splits)
  from 1 2 3 show ?thesis by auto
qed

theorem create_appends_returned_task_witness:
  "trim (taskInput dashboard) \<noteq> []
   \<and> map (\<lambda>c. (http_method c, url c, body c))
        (snd (handleAddTask api_signed_in (answering t3) dashboard)) =
        [(POST, js ''/todos'', CreateBody (js ''Call supplier'') Medium False)]
   \<and> todos (fst (handleAddTask api_signed_in (answering t3) dashboard)) = [t1, t2, t3]
   \<and> length (todos (fst (handleAddTask api_signed_in (answering t3) dashboard))) = 3
   \<and> todo_id (last (todos (fst (handleAddTask api_signed_in (answering t3) dashboard))))
        = js ''t3''"
proof -
  have nb: "trim (taskInput dashboard) \<noteq> []"
    by (simp add: dashboard_def trim_eq_Nil js_def isWhiteSpace_def)
  have l: "snd (handleAddTask api_signed_in (answering t3) dashboard)
             = [outgoing api_signed_in POST (js ''/todos'')
                  (CreateBody (taskInput dashboard) (priorityInput dashboard) False)]"
    using nb by (simp add: handleAddTask_def createTodo_outgoing answering_def)
  have a: "answering t3 (outgoing api_signed_in POST (js ''/todos'')
                  (CreateBody (taskInput dashboard) (priorityInput dashboard) False))
             = Inr \<lparr>status = 200, data = t3\<rparr>"
    by (simp add: answering_def)
  have d: "todos dashboard = [t1, t2]" "taskInput dashboard = js ''Call supplier''"
    "priorityInput dashboard = Medium"
    by (simp_all add: dashboard_def initial_state_def)
  show ?thesis
    using nb l a
      create_appends_returned_task [OF nb, where api = api_signed_in and tr = "answering t3"
        and r = "\<lparr>status = 200, data = t3\<rparr>"
        and c = "outgoing api_signed_in POST (js ''/todos'')
                  (CreateBody (taskInput dashboard) (priorityInput dashboard) False)"]
    by (simp add: d t3_def)
qed

text \<open>
  C5. When the update request for an id that occurs in the task list resolves, the list
  keeps its length, every position holding that id now holds the returned task, and every
  other position holds what it held. Where ids are unique this is one position: the list
  \<open>xs @ t # ys\<close> becomes \<open>xs @ returned # ys\<close>.
\<close>

theorem update_replaces_matching_entry:
  assumes "snd (handleToggleTodo api tr i currentStatus st) = [c]"
    and "tr c = Inr r"
    and "i \<in> todo_id ` set (todos st)"
  shows "length (todos (fst (handleToggleTodo api tr i currentStatus st))) = length (todos st)
       \<and> (\<forall>k<length (todos st).
             todos (fst (handleToggleTodo api tr i currentStatus st)) ! k =
               (if todo_id (todos st ! k) = i then data r else todos st ! k))
       \<and> (distinct (map todo_id (todos st)) \<longrightarrow>
            (\<exists>xs t ys. todos st = xs @ t # ys \<and> todo_id t = i \<and>
               todos (fst (handleToggleTodo api tr i currentStatus st)) = xs @ data r # ys))"
proof -
  have new: "todos (fst (handleToggleTodo api tr i currentStatus st)) =
               map (\<lambda>todo. if todo_id todo = i then data r else todo) (todos st)"
    using assms(1,2)
    by (auto simp: handleToggleTodo_def updateTodo_outgoing split: sum.splits)
  have u: "distinct (map todo_id (todos st)) \<longrightarrow>
            (\<exists>xs t ys. todos st = xs @ t # ys \<and> todo_id t = i \<and>
               map (\<lambda>todo. if todo_id todo = i then data r else todo) (todos st) = xs @ data r # ys)"
    using map_replace_unique [OF _ assms(3), of "data r"] by blast
  show ?thesis unfolding new using u by simp
qed

theorem update_replaces_matching_entry_witness:
  "snd (handleToggleTodo api_signed_in (answering (t2\<lparr>completed := False\<rparr>)) (js ''t2'') True
          dashboard)
     = [outgoing api_signed_in PUT (js ''/todos/'' @ js ''t2'')
          (UpdateBody \<lparr>u_task = None, u_priority = None, u_completed = Some False\<rparr>)]
   \<and> js ''t2'' \<in> todo_id ` set (todos dashboard)
   \<and> distinct (map todo_id (todos dashboard))
   \<and> length (todos (fst (handleToggleTodo api_signed_in (answering (t2\<lparr>completed := False\<rparr>))
        (js ''t2'') True dashboard))) = 2
   \<and> todos (fst (handleToggleTodo api_signed_in (answering (t2\<lparr>completed := False\<rparr>))
        (js ''t2'') True dashboard)) = [t1, t2\<lparr>completed := False\<rparr>]"
proof -
  have l: "snd (handleToggleTodo api_signed_in (answering (t2\<lparr>completed := False\<rparr>)) (js ''t2'')
              True dashboard)
     = [outgoing api_signed_in PUT (js ''/todos/'' @ js ''t2'')
          (UpdateBody \<lparr>u_task = None, u_priority = None, u_completed = Some False\<rparr>)]"
    by (simp add: handleToggleTodo_def updateTodo_outgoing answering_def)
  have a: "answering (t2\<lparr>completed := False\<rparr>)
             (outgoing api_signed_in PUT (js ''/todos/'' @ js ''t2'')
                (UpdateBody \<lparr>u_task = None, u_priority = None, u_completed = Some False\<rparr>))
             = Inr \<lparr>status = 200, data = t2\<lparr>completed := False\<rparr>\<rparr>"
    by (simp add: answering_def)
  have d: "todos dashboard = [t1, t2]"
    by (simp add: dashboard_def initial_state_def)
  have ids: "todo_id t1 = js ''t1''" "todo_id t2 = js ''t2''" "js ''t1'' \<noteq> js ''t2''"
    by (simp_all add: t1_def t2_def js_def)
  have m: "js ''t2'' \<in> todo_id ` set (todos dashboard)"
    by (simp add: d ids)
  have u: "distinct (map todo_id (todos dashboard))"
    by (simp add: d ids)
  have n: "todos (fst (handleToggleTodo api_signed_in (answering (t2\<lparr>completed := False\<rparr>))
        (js ''t2'') True dashboard)) = [t1, t2\<lparr>completed := False\<rparr>]"
    by (simp add: handleToggleTodo_def updateTodo_outgoing answering_def d ids)
  show ?thesis
    using l m u n update_replaces_matching_entry [OF l a m] by (simp add: d)
qed

text \<open>
  C6. When the delete request for an id that occurs in a task list with unique ids
  resolves, the entry with that id is gone and nothing else has changed: the list
  \<open>xs @ t # ys\<close> becomes \<open>xs @ ys\<close>.
\<close>

theorem delete_removes_matching_entry:
  assumes "snd (handleDeleteTodo api tr i st) = [c]"
    and "tr c = Inr r"
    and "distinct (map todo_id (todos st))"
    and "i \<in> todo_id ` set (todos st)"
  shows "\<exists>xs t ys. todos st = xs @ t # ys \<and> todo_id t = i \<and>
           todos (fst (handleDeleteTodo api tr i st)) = xs @ ys"
proof -
  have new: "todos (fst (handleDeleteTodo api tr i st)) =
               filter (\<lambda>todo. todo_id todo \<noteq> i) (todos st)"
    using assms(1,2)
    by (auto simp: handleDeleteTodo_def deleteTodo_outgoing split: sum.splits)
  show ?thesis unfolding new using map_replace_unique [OF assms(3,4)] by blast
qed

theorem delete_removes_matching_entry_witness:
  "snd (handleDeleteTodo api_signed_in (answering ()) (js ''t1'') dashboard)
     = [outgoing api_signed_in DELETE (js ''/todos/'' @ js ''t1'') NoBody]
   \<and> distinct (map todo_id (todos dashboard))
   \<and> js ''t1'' \<in> todo_id ` set (todos dashboard)
   \<and> (\<exists>xs t ys. todos dashboard = xs @ t # ys \<and> todo_id t = js ''t1'' \<and>
         todos (fst (handleDeleteTodo api_signed_in (answering ()) (js ''t1'') dashboard))
           = xs @ ys)"
proof -
  have l: "snd (handleDeleteTodo api_signed_in (answering ()) (js ''t1'') dashboard)
     = [outgoing api_signed_in DELETE (js ''/todos/'' @ js ''t1'') NoBody]"
    by (simp add: handleDeleteTodo_def deleteTodo_outgoing answering_def)
  have a: "answering () (outgoing api_signed_in DELETE (js ''/todos/'' @ js ''t1'') NoBody)
             = Inr \<lparr>status = 200, data = ()\<rparr>"
    by (simp add: answering_def)
  have d: "todos dashboard = [t1, t2]"
    by (simp add: dashboard_def initial_state_def)
  have ids: "todo_id t1 = js ''t1''" "todo_id t2 = js ''t2''" "js ''t1'' \<noteq> js ''t2''"
    by (simp_all add: t1_def t2_def js_def)
  have u: "distinct (map todo_id (todos dashboard))"
    by (simp add: d ids)
  have m: "js ''t1'' \<in> todo_id ` set (todos dashboard)"
    by (simp add: d ids)
  show ?thesis
    using l u m delete_removes_matching_entry [OF l a u m] by simp
qed

text \<open>
  C7. Clicking a task's toggle twice, each update being answered by a backend that applies
  the partial it was sent, brings the task back to the completed value it started with;
  after the first click the value is the opposite one. Both round trips succeed.
\<close>

theorem double_toggle_restores_completed:
  assumes "k < length (todos st)"
  shows "let t = todos st ! k;
             st1 = fst (toggle_onClick api (backend_put t) t st);
             t' = todos st1 ! k;
             st2 = fst (toggle_onClick api (backend_put t') t' st1)
         in error st1 = None \<and> error st2 = None
          \<and> completed t' = (\<not> completed t)
          \<and> completed (todos st2 ! k) = completed t
          \<and> todos st2 ! k = t"
proof -
  have step: "\<And>x s. fst (toggle_onClick api (backend_put x) x s) =
                s\<lparr>loading := False, error := None,
                  todos := map (\<lambda>todo. if todo_id todo = todo_id x
                                        then x\<lparr>completed := \<not> completed x\<rparr> else todo) (todos s)\<rparr>"
    by (simp add: toggle_onClick_def handleToggleTodo_def updateTodo_outgoing backend_put_def
          outgoing_frame applyPartial_def)
  show ?thesis using assms by (simp add: Let_def step)
qed

theorem double_toggle_restores_completed_witness:
  "(1::nat) < length (todos dashboard)
   \<and> completed (todos dashboard ! 1) = True
   \<and> completed
        (todos (fst (toggle_onClick api_signed_in (backend_put (todos dashboard ! 1))
                       (todos dashboard ! 1) dashboard)) ! 1) = False
   \<and> (let t = todos dashboard ! 1;
           st1 = fst (toggle_onClick api_signed_in (backend_put t) t dashboard);
           t' = todos st1 ! 1;
           st2 = fst (toggle_onClick api_signed_in (backend_put t') t' st1)
       in error st1 = None \<and> error st2 = None
        \<and> completed t' = (\<not> completed t)
        \<and> completed (todos st2 ! 1) = completed t
        \<and> todos st2 ! 1 = t)"
proof -
  have k: "(1::nat) < length (todos dashboard)"
    by (simp add: dashboard_def initial_state_def)
  have c: "completed (todos dashboard ! 1) = True"
    by (simp add: dashboard_def initial_state_def t2_def)
  note w = double_toggle_restores_completed [OF k, of api_signed_in]
  from w have "completed
        (todos (fst (toggle_onClick api_signed_in (backend_put (todos dashboard ! 1))
                       (todos dashboard ! 1) dashboard)) ! 1) = (\<not> completed (todos dashboard ! 1))"
    by (simp add: Let_def)
  with c have f: "completed
        (todos (fst (toggle_onClick api_signed_in (backend_put (todos dashboard ! 1))
                       (todos dashboard ! 1) dashboard)) ! 1) = False"
    by simp
  from k c f w show ?thesis by blast
qed

text \<open>
  C8. Submitting the form with a task input that is empty or consists of white space only
  does nothing: no request is sent and the state, with its error message, task list,
  loading flag and form fields, is returned as it was.
\<close>

theorem blank_input_is_noop:
  assumes "\<forall>c\<in>set (taskInput st). isWhiteSpace c"
  shows "handleAddTask api tr st = (st, [])"
  using assms by (simp add: handleAddTask_def trim_eq_Nil)

theorem blank_input_is_noop_witness:
  "list_all isWhiteSpace (taskInput (dashboard\<lparr>taskInput := [0x20, 0x09, 0x3000, 0x0A]\<rparr>))
   \<and> handleAddTask api_signed_in (answering t3) (dashboard\<lparr>taskInput := [0x20, 0x09, 0x3000, 0x0A]\<rparr>)
       = (dashboard\<lparr>taskInput := [0x20, 0x09, 0x3000, 0x0A]\<rparr>, [])
   \<and> handleAddTask api_signed_in (answering t3) initial_state = (initial_state, [])"
proof -
  have w: "\<forall>c\<in>set (taskInput (dashboard\<lparr>taskInput := [0x20, 0x09, 0x3000, 0x0A]\<rparr>)). isWhiteSpace c"
    by (simp add: isWhiteSpace_def)
  have e: "\<forall>c\<in>set (taskInput initial_state). isWhiteSpace c"
    by (simp add: initial_state_def)
  show ?thesis
    using w blank_input_is_noop [OF w, of api_signed_in "answering t3"]
      blank_input_is_noop [OF e, of api_signed_in "answering t3"]
    by (simp add: list_all_iff)
qed

text \<open>
  C9. When the request of \<open>getTodos\<close> or of \<open>generateSchedule\<close> resolves, the
  operation returns the empty list if the response has no data and the array of the
  response otherwise.
\<close>

theorem empty_list_on_no_content:
  "(snd (getTodos api tr1) = [c1] \<and> tr1 c1 = Inr r1 \<longrightarrow>
      (data r1 = None \<longrightarrow> fst (getTodos api tr1) = Inr [])
    \<and> (\<forall>xs. data r1 = Some xs \<longrightarrow> fst (getTodos api tr1) = Inr xs))
 \<and> (snd (generateSchedule api tr2 ts h) = [c2] \<and> tr2 c2 = Inr r2 \<longrightarrow>
      (data r2 = None \<longrightarrow> fst (generateSchedule api tr2 ts h) = Inr [])
    \<and> (\<forall>ys. data r2 = Some ys \<longrightarrow> fst (generateSchedule api tr2 ts h) = Inr ys))"
proof -
  have 1: "snd (getTodos api tr1) = [c1] \<and> tr1 c1 = Inr r1 \<longrightarrow>
      (data r1 = None \<longrightarrow> fst (getTodos api tr1) = Inr [])
    \<and> (\<forall>xs. data r1 = Some xs \<longrightarrow> fst (getTodos api tr1) = Inr xs)"
    by (auto simp: getTodos_outgoing split: sum.splits)
  have 2: "snd (generateSchedule api tr2 ts h) = [c2] \<and> tr2 c2 = Inr r2 \<longrightarrow>
      (data r2 = None \<longrightarrow> fst (generateSchedule api tr2 ts h) = Inr [])
    \<and> (\<forall>ys. data r2 = Some ys \<longrightarrow> fst (generateSchedule api tr2 ts h) = Inr ys)"
    by (auto simp: generateSchedule_outgoing split: sum.splits)
  from 1 2 show ?thesis by blast
qed

theorem empty_list_on_no_content_witness:
  "snd (getTodos api_signed_in (answering None)) = [outgoing api_signed_in GET (js ''/todos'') NoBody]
   \<and> fst (getTodos api_signed_in (answering None)) = Inr []
   \<and> fst (getTodos api_signed_in (answering (Some [t1, t2]))) = Inr [t1, t2]
   \<and> fst (generateSchedule api_signed_in (answering None) [t1] (habits initial_state)) = Inr []
   \<and> fst (generateSchedule api_signed_in (answering (Some [slot])) [t1] (habits initial_state))
       = Inr [slot]"
proof -
  have l: "\<And>d. snd (getTodos api_signed_in (answering d))
             = [outgoing api_signed_in GET (js ''/todos'') NoBody]"
    by (simp add: getTodos_outgoing)
  have g: "\<And>d. snd (generateSchedule api_signed_in (answering d) [t1] (habits initial_state))
             = [outgoing api_signed_in POST (js ''/schedule'')
                  (ScheduleBody [t1] (habits initial_state))]"
    by (simp add: generateSchedule_outgoing)
  have a: "\<And>d c. answering d c = Inr \<lparr>status = 200, data = d\<rparr>"
    by (simp add: answering_def)
  show ?thesis
    using l g
      empty_list_on_no_content [where api = api_signed_in and ?tr1.0 = "answering None"
        and ?tr2.0 = "answering None" and ts = "[t1]" and h = "habits initial_state"
        and ?r1.0 = "\<lparr>status = 200, data = None\<rparr>" and ?r2.0 = "\<lparr>status = 200, data = None\<rparr>"
        and ?c1.0 = "outgoing api_signed_in GET (js ''/todos'') NoBody"
        and ?c2.0 = "outgoing api_signed_in POST (js ''/schedule'')
                  (ScheduleBody [t1] (habits initial_state))"]
      empty_list_on_no_content [where api = api_signed_in and ?tr1.0 = "answering (Some [t1, t2])"
        and ?tr2.0 = "answering (Some [slot])" and ts = "[t1]" and h = "habits initial_state"
        and ?r1.0 = "\<lparr>status = 200, data = Some [t1, t2]\<rparr>"
        and ?r2.0 = "\<lparr>status = 200, data = Some [slot]\<rparr>"
        and ?c1.0 = "outgoing api_signed_in GET (js ''/todos'') NoBody"
        and ?c2.0 = "outgoing api_signed_in POST (js ''/schedule'')
                  (ScheduleBody [t1] (habits initial_state))"]
    by (simp add: a)
qed

text \<open>
  C10. When the update or the delete request for an id that does not occur in the task
  list resolves, the task list is what it was: the returned task is not stored anywhere
  and nothing is removed. The handler ends with the loading flag false and no error.
\<close>

theorem unknown_id_leaves_list_unchanged:
  assumes "i \<notin> todo_id ` set (todos st)"
  shows "(snd (handleToggleTodo api tr1 i currentStatus st) = [c1] \<and> tr1 c1 = Inr r1 \<longrightarrow>
            fst (handleToggleTodo api tr1 i currentStatus st) = st\<lparr>loading := False, error := None\<rparr>
          \<and> todos (fst (handleToggleTodo api tr1 i currentStatus st)) = todos st)
       \<and> (snd (handleDeleteTodo api tr2 i st) = [c2] \<and> tr2 c2 = Inr r2 \<longrightarrow>
            fst (handleDeleteTodo api tr2 i st) = st\<lparr>loading := False, error := None\<rparr>
          \<and> todos (fst (handleDeleteTodo api tr2 i st)) = todos st)"
proof -
  have 1: "snd (handleToggleTodo api tr1 i currentStatus st) = [c1] \<and> tr1 c1 = Inr r1 \<longrightarrow>
            fst (handleToggleTodo api tr1 i currentStatus st) = st\<lparr>loading := False, error := None\<rparr>"
    using assms
    by (auto simp: handleToggleTodo_def updateTodo_outgoing map_replace_absent split: sum.splits)
  have 2: "snd (handleDeleteTodo api tr2 i st) = [c2] \<and> tr2 c2 = Inr r2 \<longrightarrow>
            fst (handleDeleteTodo api tr2 i st) = st\<lparr>loading := False, error := None\<rparr>"
    using assms
    by (auto simp: handleDeleteTodo_def deleteTodo_outgoing filter_absent split: sum.splits)
  from 1 2 show ?thesis by auto
qed

theorem unknown_id_leaves_list_unchanged_witness:
  "js ''t9'' \<notin> todo_id ` set (todos dashboard)
   \<and> snd (handleToggleTodo api_signed_in (answering t3) (js ''t9'') False dashboard)
       = [outgoing api_signed_in PUT (js ''/todos/'' @ js ''t9'')
            (UpdateBody \<lparr>u_task = None, u_priority = None, u_completed = Some True\<rparr>)]
   \<and> todos (fst (handleToggleTodo api_signed_in (answering t3) (js ''t9'') False dashboard))
       = todos dashboard
   \<and> snd (handleDeleteTodo api_signed_in (answering ()) (js ''t9'') dashboard)
       = [outgoing api_signed_in DELETE (js ''/todos/'' @ js ''t9'') NoBody]
   \<and> todos (fst (handleDeleteTodo api_signed_in (answering ()) (js ''t9'') dashboard))
       = todos dashboard"
proof -
  have n: "js ''t9'' \<notin> todo_id ` set (todos dashboard)"
    by (simp add: dashboard_def initial_state_def t1_def t2_def js_def)
  have l1: "snd (handleToggleTodo api_signed_in (answering t3) (js ''t9'') False dashboard)
       = [outgoing api_signed_in PUT (js ''/todos/'' @ js ''t9'')
            (UpdateBody \<lparr>u_task = None, u_priority = None, u_completed = Some True\<rparr>)]"
    by (simp add: handleToggleTodo_def updateTodo_outgoing answering_def)
  have l2: "snd (handleDeleteTodo api_signed_in (answering ()) (js ''t9'') dashboard)
       = [outgoing api_signed_in DELETE (js ''/todos/'' @ js ''t9'') NoBody]"
    by (simp add: handleDeleteTodo_def deleteTodo_outgoing answering_def)
  have a: "\<And>d c. answering d c = Inr \<lparr>status = 200, data = d\<rparr>"
    by (simp add: answering_def)
  show ?thesis
    using n l1 l2
      unknown_id_leaves_list_unchanged [OF n, where api = api_signed_in
        and ?tr1.0 = "answering t3" and ?tr2.0 = "answering ()" and currentStatus = False
        and ?r1.0 = "\<lparr>status = 200, data = t3\<rparr>" and ?r2.0 = "\<lparr>status = 200, data = ()\<rparr>"
        and ?c1.0 = "outgoing api_signed_in PUT (js ''/todos/'' @ js ''t9'')
            (UpdateBody \<lparr>u_task = None, u_priority = None, u_completed = Some True\<rparr>)"
        and ?c2.0 = "outgoing api_signed_in DELETE (js ''/todos/'' @ js ''t9'') NoBody"]
    by (simp add: a)
qed


end
